theory Spec2Isabelle
  imports Complex_Main "HOL-Library.Char_ord" "HOL-Library.Sublist" "HOL-Library.Log_Nat"
begin

section \<open>The swap engine of the constant-product AMM simulator\<close>

text \<open>
  The engine is the two functions \<^verbatim>\<open>getAmountOut\<close> (the quote function) and
  \<^verbatim>\<open>simulateSwap\<close> (the swap simulator) of \<^verbatim>\<open>src/main.cpp\<close>, with the helper
  \<^verbatim>\<open>require\<close> and the result struct \<^verbatim>\<open>SwapResult\<close>.

  Numbers. The source computes in C++ \<^verbatim>\<open>double\<close>. The theory reads its arithmetic in
  two ways, each with its own pair of definitions, and says for every statement which
  reading it is about.
  \<^item> The exact reading, \<open>getAmountOut\<close> and \<open>simulateSwap\<close>: a \<^verbatim>\<open>double\<close> is a
    \<^typ>\<open>real\<close> and \<open>+\<close>, \<open>-\<close>, \<open>*\<close>, \<open>/\<close> are exact. This is the arithmetic of the
    specification's data model, which declares reserves, fee and amounts to be real
    numbers. It says nothing about rounding, overflow, infinities or NaN.
  \<^item> The binary64 reading, \<open>getAmountOut64\<close> and \<open>simulateSwap64\<close>: a \<^verbatim>\<open>double\<close> is an
    IEEE-754 binary64 value and every operation rounds its exact result once, to nearest
    with ties to even. This is what the compiled program computes.
  Checks, messages, branches and field updates are the same in both readings.

  Errors. The source has one failure mechanism: \<^verbatim>\<open>require(cond, msg)\<close> throws
  \<^verbatim>\<open>std::runtime_error(msg)\<close> when \<open>cond\<close> is false. The model returns the error as the
  left summand of \<open>error + 'a\<close>; the message is what tells the failures apart.
\<close>

subsection \<open>Data\<close>

text \<open>The struct \<^verbatim>\<open>SwapResult\<close>; the type parameter is the type of its numbers.\<close>

record 'a SwapResult =
  amountOut :: 'a
  newReserveA :: 'a
  newReserveB :: 'a
  effectivePrice :: 'a
  slippagePercent :: 'a

datatype error = RuntimeError string

text \<open>\<^verbatim>\<open>SwapResult r{}\<close>: every field value-initialised to zero.\<close>

definition SwapResult_init :: "real SwapResult" where
  "SwapResult_init =
     \<lparr>amountOut = 0, newReserveA = 0, newReserveB = 0, effectivePrice = 0, slippagePercent = 0\<rparr>"

subsection \<open>Validation helper\<close>

text \<open>\<^verbatim>\<open>if (!cond) throw std::runtime_error(msg);\<close>\<close>

definition require :: "bool \<Rightarrow> string \<Rightarrow> error + unit" where
  "require cond msg = (if \<not> cond then Inl (RuntimeError msg) else Inr ())"

text \<open>Sequencing of statements that may throw: the first exception ends the function.\<close>

definition then_do :: "error + 'a \<Rightarrow> ('a \<Rightarrow> error + 'b) \<Rightarrow> error + 'b" where
  "then_do m f = (case m of Inl e \<Rightarrow> Inl e | Inr v \<Rightarrow> f v)"

subsection \<open>Quote function, exact reading\<close>

definition getAmountOut :: "real \<Rightarrow> real \<Rightarrow> real \<Rightarrow> real \<Rightarrow> error + real" where
  "getAmountOut amountIn reserveIn reserveOut fee =
     then_do (require (amountIn > 0) ''amountIn must be > 0'') (\<lambda>_.
     then_do (require (reserveIn > 0 \<and> reserveOut > 0) ''reserves must be > 0'') (\<lambda>_.
     then_do (require (fee \<ge> 0 \<and> fee < 1) ''fee must be in [0, 1)'') (\<lambda>_.
       let amountInWithFee = amountIn * (1 - fee)
       in Inr ((amountInWithFee * reserveOut) / (reserveIn + amountInWithFee)))))"

subsection \<open>Direction normalisation\<close>

text \<open>
  \<^verbatim>\<open>(char)std::toupper((unsigned char)c)\<close>. The program never calls \<^verbatim>\<open>setlocale\<close>,
  so the "C" locale is in force: the letters \<open>a\<close> to \<open>z\<close> go to \<open>A\<close> to \<open>Z\<close> (32 code
  points below), every other byte is unchanged.
\<close>

definition toupper :: "char \<Rightarrow> char" where
  "toupper c =
     (if CHR ''a'' \<le> c \<and> c \<le> CHR ''z'' then char_of (of_char c - (32::nat)) else c)"

subsection \<open>Swap simulator, exact reading\<close>

definition simulateSwap ::
  "real \<Rightarrow> real \<Rightarrow> real \<Rightarrow> string \<Rightarrow> real \<Rightarrow> error + real SwapResult" where
  "simulateSwap reserveA reserveB fee directionRaw amountIn =
     then_do (require (reserveA > 0 \<and> reserveB > 0) ''reserveA and reserveB must be > 0'') (\<lambda>_.
     let direction = map toupper directionRaw in
     then_do (require (direction = ''A2B'' \<or> direction = ''B2A'')
                ''direction must be A2B or B2A'') (\<lambda>_.
     let r = SwapResult_init in
     if direction = ''A2B'' then
       let P0 = reserveB / reserveA in
       then_do (getAmountOut amountIn reserveA reserveB fee) (\<lambda>out.
       then_do (require (out < reserveB) ''amountOut would drain the pool (invalid trade)'') (\<lambda>_.
       let r = r\<lparr>amountOut := out\<rparr>;
           r = r\<lparr>newReserveA := reserveA + amountIn\<rparr>;
           r = r\<lparr>newReserveB := reserveB - out\<rparr>;
           r = r\<lparr>effectivePrice := out / amountIn\<rparr>;
           r = r\<lparr>slippagePercent := (P0 - effectivePrice r) / P0 * 100\<rparr>
       in Inr r))
     else
       let P0 = reserveA / reserveB in
       then_do (getAmountOut amountIn reserveB reserveA fee) (\<lambda>out.
       then_do (require (out < reserveA) ''amountOut would drain the pool (invalid trade)'') (\<lambda>_.
       let r = r\<lparr>amountOut := out\<rparr>;
           r = r\<lparr>newReserveA := reserveA - out\<rparr>;
           r = r\<lparr>newReserveB := reserveB + amountIn\<rparr>;
           r = r\<lparr>effectivePrice := out / amountIn\<rparr>;
           r = r\<lparr>slippagePercent := (P0 - effectivePrice r) / P0 * 100\<rparr>
       in Inr r))))"

subsection \<open>Reading an error\<close>

text \<open>
  An error names a parameter when the parameter's name occurs in the message of the
  exception: the only place where the source can say which input was at fault.
\<close>

definition names_parameter :: "string \<Rightarrow> error \<Rightarrow> bool" where
  "names_parameter p e = (case e of RuntimeError msg \<Rightarrow> sublist p msg)"

section \<open>Binary64 arithmetic\<close>

text \<open>
  Assumptions of the binary64 reading: every \<^verbatim>\<open>+\<close>, \<^verbatim>\<open>-\<close>, \<^verbatim>\<open>*\<close>, \<^verbatim>\<open>/\<close> of the
  source on \<^verbatim>\<open>double\<close> is one binary64 operation in the default rounding mode (no wider
  intermediate precision, no fused multiply-add), and comparisons are the IEEE ones.
\<close>

text \<open>
  An IEEE-754 binary64 value is a finite number with a sign, an infinity with a sign, or
  NaN. A finite value carries its sign bit (\<open>True\<close> for negative, so that \<open>-0\<close> and
  \<open>+0\<close> are apart) and its magnitude, a real number on the binary64 grid: a multiple of
  \<open>2^(e - 52)\<close> when it lies in \<open>[2^e, 2^(e+1))\<close> with \<open>e \<ge> -1022\<close>, a multiple of
  \<open>2^(-1074)\<close> below \<open>2^(-1022)\<close>, and less than \<open>2^1024\<close>.
\<close>

datatype double = Finite bool real | Infinity bool | NaN

definition signed :: "bool \<Rightarrow> real \<Rightarrow> real" where
  "signed s m = (if s then - m else m)"

definition pow2 :: "int \<Rightarrow> real" where
  "pow2 e = (if 0 \<le> e then 2 ^ nat e else 1 / 2 ^ nat (- e))"

text \<open>The binary exponent of \<open>q > 0\<close>: the \<open>e\<close> with \<open>2^e \<le> q < 2^(e+1)\<close>.\<close>

definition ilog2 :: "real \<Rightarrow> int" where
  "ilog2 q = (if 1 \<le> q then int (floorlog 2 (nat \<lfloor>q\<rfloor>)) - 1
              else - int (ceillog2 (nat \<lceil>1 / q\<rceil>)))"

text \<open>The nearest integer, a tie going to the even one.\<close>

definition rne :: "real \<Rightarrow> int" where
  "rne x = (if x - of_int \<lfloor>x\<rfloor> < 1 / 2 then \<lfloor>x\<rfloor>
            else if 1 / 2 < x - of_int \<lfloor>x\<rfloor> then \<lfloor>x\<rfloor> + 1
            else if even \<lfloor>x\<rfloor> then \<lfloor>x\<rfloor> else \<lfloor>x\<rfloor> + 1)"

text \<open>
  Rounding a magnitude \<open>q > 0\<close> to the grid: 53 significant bits, and never finer than
  \<open>2^(-1074)\<close> (gradual underflow).
\<close>

definition round_mag :: "real \<Rightarrow> real" where
  "round_mag q =
     of_int (rne (q / pow2 (max (ilog2 q - 52) (- 1074)))) * pow2 (max (ilog2 q - 52) (- 1074))"

text \<open>
  The binary64 value of an exact result with sign \<open>s\<close> and magnitude \<open>q\<close>: a zero keeps
  its sign, a rounded magnitude of \<open>2^1024\<close> or more is an infinity.
\<close>

definition round64 :: "bool \<Rightarrow> real \<Rightarrow> double" where
  "round64 s q = (if q = 0 then Finite s 0
                  else if pow2 1024 \<le> round_mag q then Infinity s
                  else Finite s (round_mag q))"

text \<open>A value of the datatype is a binary64 value when rounding leaves it as it is.\<close>

fun is_double :: "double \<Rightarrow> bool" where
  "is_double (Finite s m) = (0 \<le> m \<and> round64 s m = Finite s m)"
| "is_double (Infinity s) = True"
| "is_double NaN = True"

fun fneg :: "double \<Rightarrow> double" where
  "fneg (Finite s m) = Finite (\<not> s) m"
| "fneg (Infinity s) = Infinity (\<not> s)"
| "fneg NaN = NaN"

text \<open>
  \<open>x + y\<close>. An exact sum of zero is \<open>+0\<close>, except that \<open>-0 + -0\<close> is \<open>-0\<close>; infinities of
  opposite sign add to NaN.
\<close>

fun fadd :: "double \<Rightarrow> double \<Rightarrow> double" where
  "fadd NaN y = NaN"
| "fadd x NaN = NaN"
| "fadd (Infinity s) (Infinity s') = (if s = s' then Infinity s else NaN)"
| "fadd (Infinity s) (Finite s' m') = Infinity s"
| "fadd (Finite s m) (Infinity s') = Infinity s'"
| "fadd (Finite s m) (Finite s' m') =
     (if signed s m + signed s' m' = 0 then Finite (s \<and> s') 0
      else round64 (signed s m + signed s' m' < 0) \<bar>signed s m + signed s' m'\<bar>)"

text \<open>\<open>x - y\<close> is \<open>x + (-y)\<close>.\<close>

definition fsub :: "double \<Rightarrow> double \<Rightarrow> double" where
  "fsub x y = fadd x (fneg y)"

text \<open>\<open>x * y\<close>. The sign is the exclusive or of the signs; infinity times zero is NaN.\<close>

fun fmul :: "double \<Rightarrow> double \<Rightarrow> double" where
  "fmul NaN y = NaN"
| "fmul x NaN = NaN"
| "fmul (Infinity s) (Infinity s') = Infinity (s \<noteq> s')"
| "fmul (Infinity s) (Finite s' m') = (if m' = 0 then NaN else Infinity (s \<noteq> s'))"
| "fmul (Finite s m) (Infinity s') = (if m = 0 then NaN else Infinity (s \<noteq> s'))"
| "fmul (Finite s m) (Finite s' m') = round64 (s \<noteq> s') (m * m')"

text \<open>
  \<open>x / y\<close>. Zero by zero and infinity by infinity are NaN; a non-zero finite number by
  zero is an infinity; a finite number by an infinity is a zero.
\<close>

fun fdiv :: "double \<Rightarrow> double \<Rightarrow> double" where
  "fdiv NaN y = NaN"
| "fdiv x NaN = NaN"
| "fdiv (Infinity s) (Infinity s') = NaN"
| "fdiv (Infinity s) (Finite s' m') = Infinity (s \<noteq> s')"
| "fdiv (Finite s m) (Infinity s') = Finite (s \<noteq> s') 0"
| "fdiv (Finite s m) (Finite s' m') =
     (if m' = 0 then (if m = 0 then NaN else Infinity (s \<noteq> s'))
      else round64 (s \<noteq> s') (m / m'))"

text \<open>\<open>x < y\<close> and \<open>x <= y\<close>: false when an operand is NaN; the two zeros are equal.\<close>

fun flt :: "double \<Rightarrow> double \<Rightarrow> bool" where
  "flt NaN y = False"
| "flt x NaN = False"
| "flt (Infinity s) (Infinity s') = (s \<and> \<not> s')"
| "flt (Infinity s) (Finite s' m') = s"
| "flt (Finite s m) (Infinity s') = (\<not> s')"
| "flt (Finite s m) (Finite s' m') = (signed s m < signed s' m')"

fun fle :: "double \<Rightarrow> double \<Rightarrow> bool" where
  "fle NaN y = False"
| "fle x NaN = False"
| "fle (Infinity s) (Infinity s') = (s \<or> \<not> s')"
| "fle (Infinity s) (Finite s' m') = s"
| "fle (Finite s m) (Infinity s') = (\<not> s')"
| "fle (Finite s m) (Finite s' m') = (signed s m \<le> signed s' m')"

text \<open>\<open>x > y\<close> is \<open>y < x\<close> and \<open>x >= y\<close> is \<open>y <= x\<close>.\<close>

definition fgt :: "double \<Rightarrow> double \<Rightarrow> bool" where
  "fgt x y = flt y x"

definition fge :: "double \<Rightarrow> double \<Rightarrow> bool" where
  "fge x y = fle y x"

text \<open>The literals \<^verbatim>\<open>0.0\<close>, \<^verbatim>\<open>1.0\<close> and \<^verbatim>\<open>100.0\<close> of the source.\<close>

abbreviation d0 :: double where "d0 \<equiv> Finite False 0"

abbreviation d1 :: double where "d1 \<equiv> Finite False 1"

abbreviation d100 :: double where "d100 \<equiv> Finite False 100"

section \<open>The engine in the binary64 reading\<close>

definition SwapResult_init64 :: "double SwapResult" where
  "SwapResult_init64 =
     \<lparr>amountOut = d0, newReserveA = d0, newReserveB = d0, effectivePrice = d0,
      slippagePercent = d0\<rparr>"

definition getAmountOut64 :: "double \<Rightarrow> double \<Rightarrow> double \<Rightarrow> double \<Rightarrow> error + double" where
  "getAmountOut64 amountIn reserveIn reserveOut fee =
     then_do (require (fgt amountIn d0) ''amountIn must be > 0'') (\<lambda>_.
     then_do (require (fgt reserveIn d0 \<and> fgt reserveOut d0) ''reserves must be > 0'') (\<lambda>_.
     then_do (require (fge fee d0 \<and> flt fee d1) ''fee must be in [0, 1)'') (\<lambda>_.
       let amountInWithFee = fmul amountIn (fsub d1 fee)
       in Inr (fdiv (fmul amountInWithFee reserveOut) (fadd reserveIn amountInWithFee)))))"

definition simulateSwap64 ::
  "double \<Rightarrow> double \<Rightarrow> double \<Rightarrow> string \<Rightarrow> double \<Rightarrow> error + double SwapResult" where
  "simulateSwap64 reserveA reserveB fee directionRaw amountIn =
     then_do (require (fgt reserveA d0 \<and> fgt reserveB d0) ''reserveA and reserveB must be > 0'') (\<lambda>_.
     let direction = map toupper directionRaw in
     then_do (require (direction = ''A2B'' \<or> direction = ''B2A'')
                ''direction must be A2B or B2A'') (\<lambda>_.
     let r = SwapResult_init64 in
     if direction = ''A2B'' then
       let P0 = fdiv reserveB reserveA in
       then_do (getAmountOut64 amountIn reserveA reserveB fee) (\<lambda>out.
       then_do (require (flt out reserveB) ''amountOut would drain the pool (invalid trade)'') (\<lambda>_.
       let r = r\<lparr>amountOut := out\<rparr>;
           r = r\<lparr>newReserveA := fadd reserveA amountIn\<rparr>;
           r = r\<lparr>newReserveB := fsub reserveB out\<rparr>;
           r = r\<lparr>effectivePrice := fdiv out amountIn\<rparr>;
           r = r\<lparr>slippagePercent := fmul (fdiv (fsub P0 (effectivePrice r)) P0) d100\<rparr>
       in Inr r))
     else
       let P0 = fdiv reserveA reserveB in
       then_do (getAmountOut64 amountIn reserveB reserveA fee) (\<lambda>out.
       then_do (require (flt out reserveA) ''amountOut would drain the pool (invalid trade)'') (\<lambda>_.
       let r = r\<lparr>amountOut := out\<rparr>;
           r = r\<lparr>newReserveA := fsub reserveA out\<rparr>;
           r = r\<lparr>newReserveB := fadd reserveB amountIn\<rparr>;
           r = r\<lparr>effectivePrice := fdiv out amountIn\<rparr>;
           r = r\<lparr>slippagePercent := fmul (fdiv (fsub P0 (effectivePrice r)) P0) d100\<rparr>
       in Inr r))))"

section \<open>Auxiliary facts, exact reading\<close>

subsection \<open>Direction normalisation\<close>

lemma toupper_A2B: "map toupper ''A2B'' = ''A2B''"
  by code_simp

lemma toupper_B2A: "map toupper ''B2A'' = ''B2A''"
  by code_simp

lemma toupper_idem: "toupper (toupper c) = toupper c"
proof (cases "CHR ''a'' \<le> c \<and> c \<le> CHR ''z''")
  case True
  then have r: "97 \<le> (of_char c :: nat)" "(of_char c :: nat) \<le> 122"
    by (simp_all add: less_eq_char_def)
  have "(of_char (char_of (of_char c - (32::nat))) :: nat) = (of_char c - 32) mod 256"
    by (simp add: of_char_of)
  also have "\<dots> = of_char c - 32" using r by simp
  finally have "(of_char (char_of (of_char c - (32::nat))) :: nat) < 97" using r by simp
  then have "\<not> (CHR ''a'' \<le> char_of (of_char c - (32::nat)) \<and>
             char_of (of_char c - (32::nat)) \<le> CHR ''z'')"
    by (simp add: less_eq_char_def)
  then have "toupper (char_of (of_char c - (32::nat))) = char_of (of_char c - (32::nat))"
    unfolding toupper_def by (rule if_not_P)
  moreover have "toupper c = char_of (of_char c - (32::nat))"
    unfolding toupper_def using True by (rule if_P)
  ultimately show ?thesis by (simp only:)
next
  case False
  then have "toupper c = c" unfolding toupper_def by (rule if_not_P)
  then show ?thesis by (simp only:)
qed

subsection \<open>The quote formula in exact arithmetic\<close>


lemma quote_formula_pos:
  fixes amountIn reserveIn reserveOut fee :: real
  assumes "amountIn > 0" "reserveIn > 0" "reserveOut > 0" "0 \<le> fee" "fee < 1"
  shows "0 < (amountIn * (1 - fee) * reserveOut) / (reserveIn + amountIn * (1 - fee))"
proof -
  have w: "0 < amountIn * (1 - fee)" using assms by simp
  then have "0 < amountIn * (1 - fee) * reserveOut" using assms by simp
  moreover have "0 < reserveIn + amountIn * (1 - fee)" using w assms by (simp add: add_pos_pos)
  ultimately show ?thesis by simp
qed

lemma quote_formula_lt:
  fixes amountIn reserveIn reserveOut fee :: real
  assumes "amountIn > 0" "reserveIn > 0" "reserveOut > 0" "0 \<le> fee" "fee < 1"
  shows "(amountIn * (1 - fee) * reserveOut) / (reserveIn + amountIn * (1 - fee)) < reserveOut"
proof -
  have w: "0 < amountIn * (1 - fee)" using assms by simp
  have d: "0 < reserveIn + amountIn * (1 - fee)" using w assms by (simp add: add_pos_pos)
  have "amountIn * (1 - fee) * reserveOut < (reserveIn + amountIn * (1 - fee)) * reserveOut"
    using assms w by simp
  then show ?thesis using d by (simp add: pos_divide_less_eq mult.commute)
qed



lemma product_gain:
  fixes amountIn reserveIn reserveOut fee :: real
  assumes "amountIn > 0" "reserveIn > 0" "reserveOut > 0" "0 \<le> fee" "fee < 1"
  shows "(reserveIn + amountIn) *
           (reserveOut - (amountIn * (1 - fee) * reserveOut) / (reserveIn + amountIn * (1 - fee)))
         - reserveIn * reserveOut
         = reserveIn * reserveOut * (amountIn * fee) / (reserveIn + amountIn * (1 - fee))"
proof -
  define w where "w = amountIn * (1 - fee)"
  have w: "0 < w" using assms by (simp add: w_def)
  have d: "reserveIn + w \<noteq> 0" using w assms by (simp add: add_pos_pos less_imp_neq [symmetric])
  have k: "reserveOut - (w * reserveOut) / (reserveIn + w) = reserveIn * reserveOut / (reserveIn + w)"
    using d by (simp add: field_simps)
  have x: "amountIn = w + amountIn * fee" by (simp add: w_def algebra_simps)
  have "(reserveIn + amountIn) * (reserveIn * reserveOut / (reserveIn + w)) - reserveIn * reserveOut
        = ((reserveIn + amountIn) * (reserveIn * reserveOut) - reserveIn * reserveOut * (reserveIn + w))
          / (reserveIn + w)"
    using d by (simp add: diff_divide_distrib)
  also have "(reserveIn + amountIn) * (reserveIn * reserveOut) - reserveIn * reserveOut * (reserveIn + w)
        = reserveIn * reserveOut * (amountIn - w)"
    by (simp add: algebra_simps)
  also have "amountIn - w = amountIn * fee" using x by simp
  finally show ?thesis unfolding k [symmetric] unfolding w_def .
qed

subsection \<open>What the simulator returns, by normalised direction\<close>

lemma simulateSwap_A2B:
  assumes "map toupper d = ''A2B''"
  shows "simulateSwap reserveA reserveB fee d amountIn =
     (if \<not> (reserveA > 0 \<and> reserveB > 0) then Inl (RuntimeError ''reserveA and reserveB must be > 0'')
      else if \<not> amountIn > 0 then Inl (RuntimeError ''amountIn must be > 0'')
      else if \<not> (0 \<le> fee \<and> fee < 1) then Inl (RuntimeError ''fee must be in [0, 1)'')
      else let out = (amountIn * (1 - fee) * reserveB) / (reserveA + amountIn * (1 - fee)) in
        Inr \<lparr>amountOut = out, newReserveA = reserveA + amountIn, newReserveB = reserveB - out,
             effectivePrice = out / amountIn,
             slippagePercent = (reserveB / reserveA - out / amountIn) / (reserveB / reserveA) * 100\<rparr>)"
proof -
  have "amountIn > 0 \<Longrightarrow> reserveA > 0 \<Longrightarrow> reserveB > 0 \<Longrightarrow> 0 \<le> fee \<Longrightarrow> fee < 1 \<Longrightarrow>
    (amountIn * (1 - fee) * reserveB) / (reserveA + amountIn * (1 - fee)) < reserveB"
    by (rule quote_formula_lt)
  then show ?thesis
    using assms
    by (simp add: simulateSwap_def getAmountOut_def require_def then_do_def SwapResult_init_def Let_def)
qed

lemma simulateSwap_B2A:
  assumes "map toupper d = ''B2A''"
  shows "simulateSwap reserveA reserveB fee d amountIn =
     (if \<not> (reserveA > 0 \<and> reserveB > 0) then Inl (RuntimeError ''reserveA and reserveB must be > 0'')
      else if \<not> amountIn > 0 then Inl (RuntimeError ''amountIn must be > 0'')
      else if \<not> (0 \<le> fee \<and> fee < 1) then Inl (RuntimeError ''fee must be in [0, 1)'')
      else let out = (amountIn * (1 - fee) * reserveA) / (reserveB + amountIn * (1 - fee)) in
        Inr \<lparr>amountOut = out, newReserveA = reserveA - out, newReserveB = reserveB + amountIn,
             effectivePrice = out / amountIn,
             slippagePercent = (reserveA / reserveB - out / amountIn) / (reserveA / reserveB) * 100\<rparr>)"
proof -
  have "amountIn > 0 \<Longrightarrow> reserveB > 0 \<Longrightarrow> reserveA > 0 \<Longrightarrow> 0 \<le> fee \<Longrightarrow> fee < 1 \<Longrightarrow>
    (amountIn * (1 - fee) * reserveA) / (reserveB + amountIn * (1 - fee)) < reserveA"
    by (rule quote_formula_lt)
  then show ?thesis
    using assms
    by (simp add: simulateSwap_def getAmountOut_def require_def then_do_def SwapResult_init_def Let_def)
qed

lemma simulateSwap_bad_direction:
  assumes "map toupper d \<noteq> ''A2B''" "map toupper d \<noteq> ''B2A''"
  shows "simulateSwap reserveA reserveB fee d amountIn =
     (if reserveA > 0 \<and> reserveB > 0 then Inl (RuntimeError ''direction must be A2B or B2A'')
      else Inl (RuntimeError ''reserveA and reserveB must be > 0''))"
  using assms by (simp add: simulateSwap_def require_def then_do_def Let_def)

lemma simulateSwap_Inr_cases:
  assumes "simulateSwap reserveA reserveB fee d amountIn = Inr r"
  shows "reserveA > 0 \<and> reserveB > 0 \<and> amountIn > 0 \<and> 0 \<le> fee \<and> fee < 1 \<and>
    ((map toupper d = ''A2B'' \<and>
      r = (let out = (amountIn * (1 - fee) * reserveB) / (reserveA + amountIn * (1 - fee)) in
        \<lparr>amountOut = out, newReserveA = reserveA + amountIn, newReserveB = reserveB - out,
             effectivePrice = out / amountIn,
             slippagePercent = (reserveB / reserveA - out / amountIn) / (reserveB / reserveA) * 100\<rparr>))
     \<or> (map toupper d = ''B2A'' \<and>
      r = (let out = (amountIn * (1 - fee) * reserveA) / (reserveB + amountIn * (1 - fee)) in
        \<lparr>amountOut = out, newReserveA = reserveA - out, newReserveB = reserveB + amountIn,
             effectivePrice = out / amountIn,
             slippagePercent = (reserveA / reserveB - out / amountIn) / (reserveA / reserveB) * 100\<rparr>)))"
proof -
  consider (a) "map toupper d = ''A2B''" | (b) "map toupper d = ''B2A''"
    | (c) "map toupper d \<noteq> ''A2B''" "map toupper d \<noteq> ''B2A''"
    by blast
  then show ?thesis
  proof cases
    case a
    with assms show ?thesis
      by (auto simp add: simulateSwap_A2B Let_def split: if_splits)
  next
    case b
    with assms show ?thesis
      by (auto simp add: simulateSwap_B2A Let_def split: if_splits)
  next
    case c
    with assms show ?thesis
      by (simp add: simulateSwap_bad_direction split: if_splits)
  qed
qed

lemma simulateSwap_InrE:
  assumes "simulateSwap reserveA reserveB fee d amountIn = Inr r"
  obtains (A2B) out where "map toupper d = ''A2B''"
      "reserveA > 0" "reserveB > 0" "amountIn > 0" "0 \<le> fee" "fee < 1"
      "out = (amountIn * (1 - fee) * reserveB) / (reserveA + amountIn * (1 - fee))"
      "r = \<lparr>amountOut = out, newReserveA = reserveA + amountIn, newReserveB = reserveB - out,
             effectivePrice = out / amountIn,
             slippagePercent = (reserveB / reserveA - out / amountIn) / (reserveB / reserveA) * 100\<rparr>"
  | (B2A) out where "map toupper d = ''B2A''"
      "reserveA > 0" "reserveB > 0" "amountIn > 0" "0 \<le> fee" "fee < 1"
      "out = (amountIn * (1 - fee) * reserveA) / (reserveB + amountIn * (1 - fee))"
      "r = \<lparr>amountOut = out, newReserveA = reserveA - out, newReserveB = reserveB + amountIn,
             effectivePrice = out / amountIn,
             slippagePercent = (reserveA / reserveB - out / amountIn) / (reserveA / reserveB) * 100\<rparr>"
  using simulateSwap_Inr_cases [OF assms] by (auto simp add: Let_def)

lemma simulateSwap_never_drained:
  "simulateSwap reserveA reserveB fee d amountIn \<noteq>
     Inl (RuntimeError ''amountOut would drain the pool (invalid trade)'')"
proof -
  consider (a) "map toupper d = ''A2B''" | (b) "map toupper d = ''B2A''"
    | (c) "map toupper d \<noteq> ''A2B''" "map toupper d \<noteq> ''B2A''"
    by blast
  then show ?thesis
  proof cases
    case a
    then show ?thesis by (simp add: simulateSwap_A2B Let_def)
  next
    case b
    then show ?thesis by (simp add: simulateSwap_B2A Let_def)
  next
    case c
    then show ?thesis by (simp add: simulateSwap_bad_direction)
  qed
qed

subsection \<open>The demo pool: reserves 10000 and 10000, amountIn 100\<close>

lemma demo_small:
  "simulateSwap 10000 10000 (3/1000) ''A2B'' 100 =
     Inr \<lparr>amountOut = 9970000/100997, newReserveA = 10100, newReserveB = 1000000000/100997,
          effectivePrice = 99700/100997, slippagePercent = 129700/100997\<rparr>"
  by (simp add: simulateSwap_A2B [OF toupper_A2B])

lemma demo_small_B2A:
  "simulateSwap 10000 10000 (3/1000) ''B2A'' 100 =
     Inr \<lparr>amountOut = 9970000/100997, newReserveA = 1000000000/100997, newReserveB = 10100,
          effectivePrice = 99700/100997, slippagePercent = 129700/100997\<rparr>"
  by (simp add: simulateSwap_B2A [OF toupper_B2A])

lemma demo_zero_fee:
  "simulateSwap 10000 10000 0 ''A2B'' 100 =
     Inr \<lparr>amountOut = 10000/101, newReserveA = 10100, newReserveB = 1000000/101,
          effectivePrice = 100/101, slippagePercent = 100/101\<rparr>"
  by (simp add: simulateSwap_A2B [OF toupper_A2B])

subsection \<open>Reserve updates and success, exact reading\<close>

lemma simulateSwap_reserves_exact:
  assumes "simulateSwap reserveA reserveB fee d amountIn = Inr r"
  shows "0 < amountIn \<and> 0 < amountOut r \<and>
    ((map toupper d = ''A2B'' \<and> newReserveA r = reserveA + amountIn \<and>
        newReserveB r = reserveB - amountOut r)
     \<or> (map toupper d = ''B2A'' \<and> newReserveB r = reserveB + amountIn \<and>
        newReserveA r = reserveA - amountOut r))"
  using assms
proof (cases rule: simulateSwap_InrE)
  case (A2B out)
  have "0 < out"
    unfolding A2B(7) using A2B by (intro quote_formula_pos)
  then show ?thesis using A2B by simp
next
  case (B2A out)
  have "0 < out"
    unfolding B2A(7) using B2A by (intro quote_formula_pos)
  then show ?thesis using B2A by simp
qed

lemma simulateSwap_valid_succeeds:
  assumes "reserveA > 0" "reserveB > 0" "amountIn > 0" "0 \<le> fee" "fee < 1"
    and "map toupper d = ''A2B'' \<or> map toupper d = ''B2A''"
  shows "\<exists>r. simulateSwap reserveA reserveB fee d amountIn = Inr r"
proof -
  from assms(6) consider (a) "map toupper d = ''A2B''" | (b) "map toupper d = ''B2A''" by blast
  then show ?thesis
  proof cases
    case a
    with assms show ?thesis by (simp add: simulateSwap_A2B Let_def)
  next
    case b
    with assms show ?thesis by (simp add: simulateSwap_B2A Let_def)
  qed
qed

section \<open>Auxiliary facts, binary64 reading\<close>

subsection \<open>Rounding, given the binary exponent\<close>

lemma pow2_nonneg: "0 \<le> e \<Longrightarrow> pow2 e = 2 ^ nat e"
  by (simp add: pow2_def)

lemma pow2_neg: "e < 0 \<Longrightarrow> pow2 e = 1 / 2 ^ nat (- e)"
  by (simp add: pow2_def)

lemma ilog2_eqI:
  assumes lo: "pow2 e \<le> q" and hi: "q < pow2 (e + 1)"
  shows "ilog2 q = e"
proof (cases "0 \<le> e")
  case True
  define k where "k = nat e"
  have lo': "2 ^ k \<le> q" using lo True by (simp add: pow2_nonneg k_def)
  have hi': "q < 2 ^ Suc k" using hi True by (simp add: pow2_nonneg k_def nat_add_distrib)
  have "(1::real) \<le> 2 ^ k" by simp
  then have q1: "1 \<le> q" using lo' by linarith
  have "real_of_int (2 ^ k) \<le> q" using lo' by simp
  then have "2 ^ k \<le> \<lfloor>q\<rfloor>" by (simp only: le_floor_iff)
  then have a: "2 ^ k \<le> nat \<lfloor>q\<rfloor>"
    by (simp add: le_nat_iff)
  have "q < real_of_int (2 ^ Suc k)" using hi' by simp
  then have "\<lfloor>q\<rfloor> < 2 ^ Suc k" by (simp only: floor_less_iff)
  then have b: "nat \<lfloor>q\<rfloor> < 2 ^ Suc k"
    using q1 by (simp add: nat_less_iff)
  have "Suc k \<le> floorlog 2 (nat \<lfloor>q\<rfloor>)" using a by (intro floorlog_ge_SucI) simp_all
  moreover have "floorlog 2 (nat \<lfloor>q\<rfloor>) \<le> Suc k" using b by (intro floorlog_leI) simp_all
  ultimately have "floorlog 2 (nat \<lfloor>q\<rfloor>) = Suc k" by simp
  then show ?thesis using q1 True by (simp add: ilog2_def k_def)
next
  case False
  define k where "k = nat (- e)"
  have k: "0 < k" "e = - int k" using False by (simp_all add: k_def)
  have lo': "1 / 2 ^ k \<le> q" using lo False by (simp add: pow2_neg k_def)
  have hi': "q < 1 / 2 ^ (k - 1)"
  proof (cases "e = - 1")
    case True
    then show ?thesis using hi by (simp add: pow2_def k_def)
  next
    case False
    then have "e + 1 < 0" using \<open>\<not> 0 \<le> e\<close> by simp
    moreover have "nat (- (e + 1)) = k - 1" by (simp add: k_def)
    ultimately show ?thesis using hi by (simp add: pow2_neg)
  qed
  have "(0::real) < 1 / 2 ^ k" by simp
  then have q0: "0 < q" using lo' by linarith
  have "(1::real) / 2 ^ (k - 1) \<le> 1" by (simp add: divide_le_eq_1)
  then have q1: "\<not> 1 \<le> q" using hi' by linarith
  have u: "1 / q \<le> 2 ^ k" using lo' q0 by (simp add: field_simps)
  have l: "2 ^ (k - 1) < 1 / q" using hi' q0 by (simp add: field_simps)
  have "1 / q \<le> real_of_int (2 ^ k)" using u by simp
  then have "\<lceil>1 / q\<rceil> \<le> 2 ^ k" by (simp only: ceiling_le_iff)
  then have a: "nat \<lceil>1 / q\<rceil> \<le> 2 ^ k"
    by (simp add: nat_le_iff)
  have "real_of_int (2 ^ (k - 1)) < 1 / q" using l by simp
  then have "2 ^ (k - 1) < \<lceil>1 / q\<rceil>" by (simp only: less_ceiling_iff)
  then have "2 ^ (k - 1) < nat \<lceil>1 / q\<rceil>"
    by (simp add: zless_nat_eq_int_zless)
  then have "2 * 2 ^ (k - 1) < 2 * nat \<lceil>1 / q\<rceil>" by simp
  moreover have "(2::nat) * 2 ^ (k - 1) = 2 ^ k" using k(1) by (cases k) simp_all
  ultimately have b: "2 ^ k < 2 * nat \<lceil>1 / q\<rceil>" by linarith
  have "ceillog2 (nat \<lceil>1 / q\<rceil>) = k" using a b by (rule ceillog2_eqI)
  then show ?thesis using q1 k by (simp add: ilog2_def)
qed

lemma round64_eval:
  assumes "pow2 e \<le> q" and "q < pow2 (e + 1)"
  shows "round64 s q =
    (if pow2 1024 \<le> of_int (rne (q / pow2 (max (e - 52) (- 1074)))) * pow2 (max (e - 52) (- 1074))
     then Infinity s
     else Finite s (of_int (rne (q / pow2 (max (e - 52) (- 1074)))) * pow2 (max (e - 52) (- 1074))))"
proof -
  have "0 < pow2 e" by (simp add: pow2_def)
  then have "q \<noteq> 0" using assms(1) by linarith
  moreover have "ilog2 q = e" using assms by (rule ilog2_eqI)
  ultimately show ?thesis by (simp add: round64_def round_mag_def)
qed

lemma round64_zero: "round64 s 0 = Finite s 0"
  by (simp add: round64_def)

lemmas dbl_eval = rne_def pow2_def signed_def fsub_def fgt_def fge_def round64_zero

subsection \<open>What the binary64 simulator returns, by normalised direction\<close>

lemma getAmountOut64_valid:
  assumes "fgt amountIn d0" "fgt reserveIn d0" "fgt reserveOut d0" "fge fee d0" "flt fee d1"
  shows "getAmountOut64 amountIn reserveIn reserveOut fee =
           Inr (fdiv (fmul (fmul amountIn (fsub d1 fee)) reserveOut)
                  (fadd reserveIn (fmul amountIn (fsub d1 fee))))"
  using assms by (simp add: getAmountOut64_def require_def then_do_def Let_def)

lemma getAmountOut64_errors:
  "getAmountOut64 amountIn reserveIn reserveOut fee = Inl e \<longleftrightarrow>
      \<not> (fgt amountIn d0 \<and> fgt reserveIn d0 \<and> fgt reserveOut d0 \<and> fge fee d0 \<and> flt fee d1) \<and>
      e = (if \<not> fgt amountIn d0 then RuntimeError ''amountIn must be > 0''
           else if \<not> (fgt reserveIn d0 \<and> fgt reserveOut d0)
             then RuntimeError ''reserves must be > 0''
           else RuntimeError ''fee must be in [0, 1)'')"
  by (auto simp add: getAmountOut64_def require_def then_do_def Let_def)

lemma getAmountOut64_not_drained:
  "getAmountOut64 amountIn reserveIn reserveOut fee \<noteq>
     Inl (RuntimeError ''amountOut would drain the pool (invalid trade)'')"
  by (simp add: getAmountOut64_def require_def then_do_def Let_def)

lemma simulateSwap64_A2B:
  assumes "map toupper d = ''A2B''"
  shows "simulateSwap64 reserveA reserveB fee d amountIn =
     (if \<not> (fgt reserveA d0 \<and> fgt reserveB d0)
        then Inl (RuntimeError ''reserveA and reserveB must be > 0'')
      else case getAmountOut64 amountIn reserveA reserveB fee of
        Inl e \<Rightarrow> Inl e
      | Inr out \<Rightarrow>
          if \<not> flt out reserveB
            then Inl (RuntimeError ''amountOut would drain the pool (invalid trade)'')
          else Inr \<lparr>amountOut = out, newReserveA = fadd reserveA amountIn,
                 newReserveB = fsub reserveB out, effectivePrice = fdiv out amountIn,
                 slippagePercent =
                   fmul (fdiv (fsub (fdiv reserveB reserveA) (fdiv out amountIn))
                           (fdiv reserveB reserveA)) d100\<rparr>)"
  using assms
  by (simp add: simulateSwap64_def require_def then_do_def SwapResult_init64_def Let_def
      split: sum.split)

lemma simulateSwap64_B2A:
  assumes "map toupper d = ''B2A''"
  shows "simulateSwap64 reserveA reserveB fee d amountIn =
     (if \<not> (fgt reserveA d0 \<and> fgt reserveB d0)
        then Inl (RuntimeError ''reserveA and reserveB must be > 0'')
      else case getAmountOut64 amountIn reserveB reserveA fee of
        Inl e \<Rightarrow> Inl e
      | Inr out \<Rightarrow>
          if \<not> flt out reserveA
            then Inl (RuntimeError ''amountOut would drain the pool (invalid trade)'')
          else Inr \<lparr>amountOut = out, newReserveA = fsub reserveA out,
                 newReserveB = fadd reserveB amountIn, effectivePrice = fdiv out amountIn,
                 slippagePercent =
                   fmul (fdiv (fsub (fdiv reserveA reserveB) (fdiv out amountIn))
                           (fdiv reserveA reserveB)) d100\<rparr>)"
  using assms
  by (simp add: simulateSwap64_def require_def then_do_def SwapResult_init64_def Let_def
      split: sum.split)

lemma simulateSwap64_bad_direction:
  assumes "map toupper d \<noteq> ''A2B''" "map toupper d \<noteq> ''B2A''"
  shows "simulateSwap64 reserveA reserveB fee d amountIn =
     (if fgt reserveA d0 \<and> fgt reserveB d0 then Inl (RuntimeError ''direction must be A2B or B2A'')
      else Inl (RuntimeError ''reserveA and reserveB must be > 0''))"
  using assms by (simp add: simulateSwap64_def require_def then_do_def Let_def)

lemma simulateSwap64_reserves:
  assumes "simulateSwap64 reserveA reserveB fee d amountIn = Inr r"
  shows "(map toupper d = ''A2B'' \<and> newReserveA r = fadd reserveA amountIn \<and>
            newReserveB r = fsub reserveB (amountOut r))
       \<or> (map toupper d = ''B2A'' \<and> newReserveB r = fadd reserveB amountIn \<and>
            newReserveA r = fsub reserveA (amountOut r))"
proof -
  consider (a) "map toupper d = ''A2B''" | (b) "map toupper d = ''B2A''"
    | (c) "map toupper d \<noteq> ''A2B''" "map toupper d \<noteq> ''B2A''"
    by blast
  then show ?thesis
  proof cases
    case a
    with assms show ?thesis
      by (auto simp add: simulateSwap64_A2B split: if_splits sum.splits)
  next
    case b
    with assms show ?thesis
      by (auto simp add: simulateSwap64_B2A split: if_splits sum.splits)
  next
    case c
    with assms show ?thesis
      by (simp add: simulateSwap64_bad_direction split: if_splits)
  qed
qed

lemma simulateSwap64_drained_iff:
  "simulateSwap64 reserveA reserveB fee d amountIn =
       Inl (RuntimeError ''amountOut would drain the pool (invalid trade)'') \<longleftrightarrow>
     fgt reserveA d0 \<and> fgt reserveB d0 \<and>
     ((map toupper d = ''A2B'' \<and>
         (\<exists>out. getAmountOut64 amountIn reserveA reserveB fee = Inr out \<and> \<not> flt out reserveB))
      \<or> (map toupper d = ''B2A'' \<and>
         (\<exists>out. getAmountOut64 amountIn reserveB reserveA fee = Inr out \<and> \<not> flt out reserveA)))"
proof -
  consider (a) "map toupper d = ''A2B''" | (b) "map toupper d = ''B2A''"
    | (c) "map toupper d \<noteq> ''A2B''" "map toupper d \<noteq> ''B2A''"
    by blast
  then show ?thesis
  proof cases
    case a
    then have nb: "map toupper d \<noteq> ''B2A''" by simp
    show ?thesis
      using getAmountOut64_not_drained [of amountIn reserveA reserveB fee]
      by (auto simp add: simulateSwap64_A2B [OF a] a nb split: sum.splits)
  next
    case b
    then have na: "map toupper d \<noteq> ''A2B''" by simp
    show ?thesis
      using getAmountOut64_not_drained [of amountIn reserveB reserveA fee]
      by (auto simp add: simulateSwap64_B2A [OF b] b na split: sum.splits)
  next
    case c
    then show ?thesis by (simp add: simulateSwap64_bad_direction)
  qed
qed

subsection \<open>Facts that do not depend on the arithmetic, in the binary64 reading\<close>

text \<open>
  The two direction branches return the same \<open>amountOut\<close>, or the same error, on relabelled
  pools; and a call on \<open>d\<close> is the call on the upper-case form of \<open>d\<close>.
\<close>

lemma direction_symmetry64:
  "map_sum id amountOut (simulateSwap64 A B fee ''A2B'' x) =
   map_sum id amountOut (simulateSwap64 B A fee ''B2A'' x)"
  by (auto simp add: simulateSwap64_A2B [OF toupper_A2B] simulateSwap64_B2A [OF toupper_B2A]
      split: sum.splits)

lemma direction_case_insensitive64:
  "simulateSwap64 reserveA reserveB fee d amountIn =
     simulateSwap64 reserveA reserveB fee (map toupper d) amountIn"
proof -
  have "map toupper (map toupper d) = map toupper d"
    by (simp add: toupper_idem)
  then show ?thesis by (simp only: simulateSwap64_def)
qed

subsection \<open>The binary64 engine at some inputs\<close>

text \<open>
  The inputs are binary64 values: \<open>10^21\<close>, \<open>2 * 10^21\<close> and \<open>10^16\<close> are \<open>5^21 * 2^21\<close>,
  \<open>5^21 * 2^22\<close> and \<open>5^16 * 2^16\<close> with \<open>5^21 < 2^53\<close>. Each line below is one run of the
  source's operations, every intermediate result rounded.
\<close>

lemma inputs_are_doubles:
  "is_double (Finite False 0)" "is_double (Finite False 1)" "is_double (Finite False 3)"
  "is_double (Finite False 10000)" "is_double (Finite False 10000000000000000)"
  "is_double (Finite False 1000000000000000000000)"
  "is_double (Finite False 2000000000000000000000)"
  "is_double (Finite False (5 / 2 ^ 55))" "is_double (Finite False (1 / 2 ^ 540))"
  by (simp_all add: dbl_eval round64_eval [where e = 0] round64_eval [where e = 1]
      round64_eval [where e = 13] round64_eval [where e = 53] round64_eval [where e = 69]
      round64_eval [where e = 70] round64_eval [where e = "- 53"]
      round64_eval [where e = "- 540"])

lemma quote64_1e21:
  "getAmountOut64 (Finite False 1000000000000000000000) (Finite False 10000)
     (Finite False 10000) (Finite False 0) = Inr (Finite False 10000)"
  by (simp add: getAmountOut64_def require_def then_do_def dbl_eval
      round64_eval [where e = 0] round64_eval [where e = 13] round64_eval [where e = 69]
      round64_eval [where e = 83])

text \<open>The operations of that run, one by one.\<close>

lemma quote64_1e21_steps:
  "fmul (Finite False 1000000000000000000000) (fsub d1 d0) =
     Finite False 1000000000000000000000"
  "fmul (Finite False 1000000000000000000000) (Finite False 10000) =
     Finite False 10000000000000000905969664"
  "fadd (Finite False 10000) (Finite False 1000000000000000000000) =
     Finite False 1000000000000000000000"
  "fdiv (Finite False 10000000000000000905969664) (Finite False 1000000000000000000000) =
     Finite False 10000"
  by (simp_all add: dbl_eval round64_eval [where e = 0] round64_eval [where e = 13]
      round64_eval [where e = 69] round64_eval [where e = 83])



lemma sim64_1e16:
  "simulateSwap64 (Finite False 10000000000000000) (Finite False 10000000000000000)
     (Finite False 0) ''A2B'' (Finite False 1) =
   Inr \<lparr>amountOut = Finite False 1, newReserveA = Finite False 10000000000000000,
        newReserveB = Finite False 10000000000000000, effectivePrice = Finite False 1,
        slippagePercent = Finite False 0\<rparr>"
  by (simp add: simulateSwap64_A2B [OF toupper_A2B] getAmountOut64_def require_def then_do_def
      dbl_eval round64_eval [where e = 0] round64_eval [where e = 53])


text \<open>
  The operations of that run, one by one: the spot price is \<open>1 / 3\<close> rounded down, the
  effective price is one unit in the last place above it.
\<close>

lemma sim64_3_1_steps:
  "fdiv d1 (Finite False 3) = Finite False (6004799503160661 / 2 ^ 54)"
  "fadd (Finite False 3) (Finite False (5 / 2 ^ 55)) = Finite False 3"
  "fdiv (Finite False (5 / 2 ^ 55)) (Finite False 3) =
     Finite False (7505999378950827 / 2 ^ 107)"
  "fsub d1 (Finite False (7505999378950827 / 2 ^ 107)) = d1"
  "fdiv (Finite False (7505999378950827 / 2 ^ 107)) (Finite False (5 / 2 ^ 55)) =
     Finite False (6004799503160662 / 2 ^ 54)"
  "fsub (Finite False (6004799503160661 / 2 ^ 54)) (Finite False (6004799503160662 / 2 ^ 54)) =
     Finite True (1 / 2 ^ 54)"
  "fdiv (Finite True (1 / 2 ^ 54)) (Finite False (6004799503160661 / 2 ^ 54)) =
     Finite True (3 / 2 ^ 54)"
  "fmul (Finite True (3 / 2 ^ 54)) d100 = Finite True (75 / 2 ^ 52)"
  by (simp_all add: dbl_eval round64_eval [where e = 1]
      round64_eval [where e = "- 1"] round64_eval [where e = "- 2"]
      round64_eval [where e = "- 46"] round64_eval [where e = "- 53"]
      round64_eval [where e = "- 54"] round64_eval [where e = "- 55"])

text \<open>
  The first demo scenario of the program (\<^verbatim>\<open>fee = 0.003\<close>, the binary64 value nearest to
  \<open>3 / 1000\<close>): \<open>amountOut\<close> is about \<open>98.7158\<close> and the slippage about \<open>1.2842\<close> percent.
\<close>

lemma fee_0_003: "round64 False (3 / 1000) = Finite False (3458764513820541 / 2 ^ 60)"
  by (simp add: dbl_eval round64_eval [where e = "- 9"])

lemma sim64_demo:
  "simulateSwap64 (Finite False 10000) (Finite False 10000)
     (Finite False (3458764513820541 / 2 ^ 60)) ''A2B'' (Finite False 100) =
   Inr \<lparr>amountOut = Finite False (1736626779635311 / 17592186044416),
        newReserveA = Finite False 10100,
        newReserveB = Finite False (5443288552016397 / 549755813888),
        effectivePrice = Finite False (1111441138966599 / 1125899906842624),
        slippagePercent = Finite False (361469196900625 / 281474976710656)\<rparr>"
  by (simp add: simulateSwap64_A2B [OF toupper_A2B] getAmountOut64_def require_def then_do_def
      dbl_eval round64_eval [where e = 0] round64_eval [where e = 6]
      round64_eval [where e = 13] round64_eval [where e = 19]
      round64_eval [where e = "- 1"] round64_eval [where e = "- 7"]
      round64_eval [where e = "- 9"])

text \<open>
  Special values: a product that overflows is an infinity, and an infinite \<open>amountIn\<close>
  (which passes \<open>amountIn > 0\<close>) gives the quote \<open>inf / inf\<close>, NaN. Neither is below the
  out-reserve.
\<close>

lemma sim64_overflow:
  "simulateSwap64 (Finite False (2 ^ 600)) (Finite False (2 ^ 600)) (Finite False 0) ''A2B''
     (Finite False (2 ^ 600)) =
   Inl (RuntimeError ''amountOut would drain the pool (invalid trade)'')"
  by (simp add: simulateSwap64_A2B [OF toupper_A2B] getAmountOut64_def require_def then_do_def
      dbl_eval round64_eval [where e = 0] round64_eval [where e = 600]
      round64_eval [where e = 601] round64_eval [where e = 1200])

lemma sim64_infinite:
  "getAmountOut64 (Infinity False) (Finite False 10000) (Finite False 10000) (Finite False 0) =
     Inr NaN \<and>
   simulateSwap64 (Finite False 10000) (Finite False 10000) (Finite False 0) ''A2B''
     (Infinity False) =
   Inl (RuntimeError ''amountOut would drain the pool (invalid trade)'')"
  by (simp add: simulateSwap64_A2B [OF toupper_A2B] getAmountOut64_def require_def then_do_def
      dbl_eval round64_eval [where e = 0])

lemma sim64_1e21:
  "simulateSwap64 (Finite False 10000) (Finite False 10000) (Finite False 0) ''A2B''
     (Finite False 1000000000000000000000) =
   Inl (RuntimeError ''amountOut would drain the pool (invalid trade)'')"
  by (simp add: simulateSwap64_A2B [OF toupper_A2B] quote64_1e21 dbl_eval)

section \<open>Properties of the quote function\<close>

text \<open>
  C1. For every input with \<open>amountIn > 0\<close>, \<open>reserveIn > 0\<close>, \<open>reserveOut > 0\<close> and
  \<open>0 \<le> fee < 1\<close>, the quote function returns exactly
  \<open>(amountIn * (1 - fee) * reserveOut) / (reserveIn + amountIn * (1 - fee))\<close>: the
  fee-adjusted constant-product formula with \<open>amountInWithFee = amountIn * (1 - fee)\<close>.
\<close>

theorem getAmountOut_formula:
  assumes "amountIn > 0" and "reserveIn > 0" and "reserveOut > 0" and "0 \<le> fee" and "fee < 1"
  shows "getAmountOut amountIn reserveIn reserveOut fee =
           Inr ((amountIn * (1 - fee) * reserveOut) / (reserveIn + amountIn * (1 - fee)))"
  using assms by (simp add: getAmountOut_def require_def then_do_def Let_def)

theorem getAmountOut_formula_witness:
  "(100::real) > 0 \<and> (10000::real) > 0 \<and> (0::real) \<le> 3 / 1000 \<and> (3 / 1000 :: real) < 1 \<and>
   getAmountOut 100 10000 10000 (3 / 1000) = Inr (9970000 / 100997)"
  using getAmountOut_formula [of 100 10000 10000 "3 / 1000"] by simp







section \<open>Properties of the swap simulator\<close>

text \<open>
  C3, as stated: on every successful call exactly one reserve increases by \<open>amountIn\<close> and
  the other decreases by \<open>amountOut\<close>. In the binary64 reading the call with reserves
  \<open>10^16\<close> and \<open>10^16\<close>, fee \<open>0\<close>, direction A2B and \<open>amountIn = 1\<close> succeeds with
  \<open>amountOut = 1\<close> and both new reserves equal to the old ones: \<open>10^16 + 1\<close> and
  \<open>10^16 - 1\<close> both round to \<open>10^16\<close>.
\<close>

theorem reserves_unchanged_counterexample:
  "is_double (Finite False 10000000000000000) \<and> is_double (Finite False 1) \<and>
   is_double (Finite False 0) \<and>
   simulateSwap64 (Finite False 10000000000000000) (Finite False 10000000000000000)
     (Finite False 0) ''A2B'' (Finite False 1) =
   Inr \<lparr>amountOut = Finite False 1, newReserveA = Finite False 10000000000000000,
        newReserveB = Finite False 10000000000000000, effectivePrice = Finite False 1,
        slippagePercent = Finite False 0\<rparr> \<and>
   \<not> flt (Finite False 10000000000000000) (Finite False 10000000000000000)"
  by (intro conjI inputs_are_doubles sim64_1e16) (simp add: signed_def)

text \<open>
  C3, amended: on every successful call, for direction A2B the new reserves are
  \<open>reserveA + amountIn\<close> and \<open>reserveB - amountOut\<close>, for direction B2A they are
  \<open>reserveA - amountOut\<close> and \<open>reserveB + amountIn\<close>, where in the binary64 reading \<open>+\<close> and
  \<open>-\<close> are the rounded operations (first conjunct), so that a reserve can keep its value;
  in exact real arithmetic both amounts are positive and one reserve increases by
  \<open>amountIn\<close> while the other decreases by \<open>amountOut\<close> (second conjunct).
\<close>

theorem reserve_updates:
  "(simulateSwap64 reserveA reserveB fee d amountIn = Inr r \<longrightarrow>
      (map toupper d = ''A2B'' \<and> newReserveA r = fadd reserveA amountIn \<and>
         newReserveB r = fsub reserveB (amountOut r))
      \<or> (map toupper d = ''B2A'' \<and> newReserveB r = fadd reserveB amountIn \<and>
         newReserveA r = fsub reserveA (amountOut r))) \<and>
   (simulateSwap rA rB rfee d' rIn = Inr r' \<longrightarrow>
      0 < rIn \<and> 0 < amountOut r' \<and>
      ((map toupper d' = ''A2B'' \<and> newReserveA r' = rA + rIn \<and>
          newReserveB r' = rB - amountOut r')
       \<or> (map toupper d' = ''B2A'' \<and> newReserveB r' = rB + rIn \<and>
          newReserveA r' = rA - amountOut r')))"
  using simulateSwap64_reserves [of reserveA reserveB fee d amountIn r]
    simulateSwap_reserves_exact [of rA rB rfee d' rIn r']
  by blast

theorem reserve_updates_witness:
  "simulateSwap64 (Finite False 10000000000000000) (Finite False 10000000000000000)
     (Finite False 0) ''A2B'' (Finite False 1) =
   Inr \<lparr>amountOut = Finite False 1, newReserveA = Finite False 10000000000000000,
        newReserveB = Finite False 10000000000000000, effectivePrice = Finite False 1,
        slippagePercent = Finite False 0\<rparr> \<and>
   Finite False 10000000000000000 = fadd (Finite False 10000000000000000) (Finite False 1) \<and>
   Finite False 10000000000000000 = fsub (Finite False 10000000000000000) (Finite False 1) \<and>
   simulateSwap 10000 10000 (3/1000) ''A2B'' 100 =
     Inr \<lparr>amountOut = 9970000/100997, newReserveA = 10100, newReserveB = 1000000000/100997,
          effectivePrice = 99700/100997, slippagePercent = 129700/100997\<rparr> \<and>
   (10100::real) = 10000 + 100 \<and> (1000000000/100997 :: real) = 10000 - 9970000/100997"
proof -
  note t = reserve_updates [where reserveA = "Finite False 10000000000000000"
      and reserveB = "Finite False 10000000000000000" and fee = "Finite False 0"
      and d = "''A2B''" and amountIn = "Finite False 1"
      and r = "\<lparr>amountOut = Finite False 1, newReserveA = Finite False 10000000000000000,
        newReserveB = Finite False 10000000000000000, effectivePrice = Finite False 1,
        slippagePercent = Finite False 0\<rparr>"
      and rA = 10000 and rB = 10000 and rfee = "3/1000" and d' = "''A2B''" and rIn = 100
      and r' = "\<lparr>amountOut = 9970000/100997, newReserveA = 10100,
          newReserveB = 1000000000/100997,
          effectivePrice = 99700/100997, slippagePercent = 129700/100997\<rparr>"]
  have u: "map toupper ''A2B'' \<noteq> ''B2A''" by (simp only: toupper_A2B) simp
  have a: "Finite False 10000000000000000 = fadd (Finite False 10000000000000000) (Finite False 1)"
    using t sim64_1e16 u by (simp only: toupper_A2B simp_thms SwapResult.simps)
  have b: "Finite False 10000000000000000 = fsub (Finite False 10000000000000000) (Finite False 1)"
    using t sim64_1e16 u by (simp only: toupper_A2B simp_thms SwapResult.simps)
  have c: "(10100::real) = 10000 + 100 \<and> (1000000000/100997 :: real) = 10000 - 9970000/100997"
    by simp
  show ?thesis using a b c sim64_1e16 demo_small by (simp only: simp_thms)
qed




text \<open>
  C6. Direction symmetry: for valid \<open>A\<close>, \<open>B\<close>, \<open>fee\<close>, \<open>x\<close> the A2B swap on the pool
  \<open>(A, B)\<close> and the B2A swap on the pool \<open>(B, A)\<close> both succeed and return the same
  \<open>amountOut\<close>.
\<close>

theorem direction_symmetry:
  assumes "A > 0" and "B > 0" and "0 \<le> fee" and "fee < 1" and "x > 0"
  shows "\<exists>r r'. simulateSwap A B fee ''A2B'' x = Inr r \<and> simulateSwap B A fee ''B2A'' x = Inr r' \<and>
           amountOut r = amountOut r'"
  using assms
  by (simp add: simulateSwap_A2B [OF toupper_A2B] simulateSwap_B2A [OF toupper_B2A] Let_def)

theorem direction_symmetry_witness:
  "(10000::real) > 0 \<and> (20000::real) > 0 \<and> (0::real) \<le> 3/1000 \<and> (3/1000::real) < 1 \<and> (100::real) > 0 \<and>
   (\<exists>r r'. simulateSwap 10000 20000 (3/1000) ''A2B'' 100 = Inr r \<and>
       simulateSwap 20000 10000 (3/1000) ''B2A'' 100 = Inr r' \<and> amountOut r = amountOut r')"
  using direction_symmetry [of 10000 20000 "3/1000" 100]
  by simp

text \<open>
  C10. On every successful call, in exact real arithmetic, the product of the reserves
  after the trade is at least the product before it, with equality exactly when
  \<open>fee = 0\<close>; both reserves after the trade are strictly positive.
\<close>

theorem product_nondecreasing:
  assumes "simulateSwap reserveA reserveB fee d amountIn = Inr r"
  shows "newReserveA r * newReserveB r \<ge> reserveA * reserveB \<and>
         (newReserveA r * newReserveB r = reserveA * reserveB \<longleftrightarrow> fee = 0) \<and>
         0 < newReserveA r \<and> 0 < newReserveB r"
  using assms
proof (cases rule: simulateSwap_InrE)
  case (A2B out)
  have den: "0 < reserveA + amountIn * (1 - fee)"
    using A2B by (simp add: add_pos_pos)
  have g: "(reserveA + amountIn) * (reserveB - out) - reserveA * reserveB
             = reserveA * reserveB * (amountIn * fee) / (reserveA + amountIn * (1 - fee))"
    unfolding A2B(7) using A2B by (intro product_gain)
  have ab: "0 < reserveA * reserveB" using A2B by simp
  have nn: "0 \<le> reserveA * reserveB * (amountIn * fee) / (reserveA + amountIn * (1 - fee))"
    using A2B den by simp
  have z: "reserveA * reserveB * (amountIn * fee) / (reserveA + amountIn * (1 - fee)) = 0
             \<longleftrightarrow> fee = 0"
    using A2B den by simp
  have lt: "out < reserveB" unfolding A2B(7) using A2B by (intro quote_formula_lt)
  have p: "newReserveA r = reserveA + amountIn" "newReserveB r = reserveB - out"
    by (simp_all add: A2B(8))
  have "reserveA * reserveB \<le> (reserveA + amountIn) * (reserveB - out)"
    using g nn by linarith
  moreover have "(reserveA + amountIn) * (reserveB - out) = reserveA * reserveB \<longleftrightarrow> fee = 0"
    using g z by auto
  moreover have "0 < reserveA + amountIn" using A2B by simp
  moreover have "0 < reserveB - out" using lt by simp
  ultimately show ?thesis unfolding p by blast
next
  case (B2A out)
  have den: "0 < reserveB + amountIn * (1 - fee)"
    using B2A by (simp add: add_pos_pos)
  have g: "(reserveB + amountIn) * (reserveA - out) - reserveB * reserveA
             = reserveB * reserveA * (amountIn * fee) / (reserveB + amountIn * (1 - fee))"
    unfolding B2A(7) using B2A by (intro product_gain)
  have nn: "0 \<le> reserveB * reserveA * (amountIn * fee) / (reserveB + amountIn * (1 - fee))"
    using B2A den by simp
  have z: "reserveB * reserveA * (amountIn * fee) / (reserveB + amountIn * (1 - fee)) = 0
             \<longleftrightarrow> fee = 0"
    using B2A den by simp
  have lt: "out < reserveA" unfolding B2A(7) using B2A by (intro quote_formula_lt)
  have p: "newReserveA r = reserveA - out" "newReserveB r = reserveB + amountIn"
    by (simp_all add: B2A(8))
  have "reserveB * reserveA \<le> (reserveB + amountIn) * (reserveA - out)"
    using g nn by linarith
  then have "reserveA * reserveB \<le> (reserveA - out) * (reserveB + amountIn)"
    by (simp add: mult.commute)
  moreover have "(reserveB + amountIn) * (reserveA - out) = reserveB * reserveA \<longleftrightarrow> fee = 0"
    using g z by auto
  then have "(reserveA - out) * (reserveB + amountIn) = reserveA * reserveB \<longleftrightarrow> fee = 0"
    by (simp add: mult.commute)
  moreover have "0 < reserveB + amountIn" using B2A by simp
  moreover have "0 < reserveA - out" using lt by simp
  ultimately show ?thesis unfolding p by blast
qed

theorem product_nondecreasing_witness:
  "simulateSwap 10000 10000 (3/1000) ''A2B'' 100 =
     Inr \<lparr>amountOut = 9970000/100997, newReserveA = 10100, newReserveB = 1000000000/100997,
          effectivePrice = 99700/100997, slippagePercent = 129700/100997\<rparr> \<and>
   (10100 :: real) * (1000000000/100997) \<ge> 10000 * 10000 \<and>
   (10100 :: real) * (1000000000/100997) \<noteq> 10000 * 10000 \<and>
   simulateSwap 10000 10000 0 ''A2B'' 100 =
     Inr \<lparr>amountOut = 10000/101, newReserveA = 10100, newReserveB = 1000000/101,
          effectivePrice = 100/101, slippagePercent = 100/101\<rparr> \<and>
   (10100 :: real) * (1000000/101) = 10000 * 10000"
  using product_nondecreasing [OF demo_small] product_nondecreasing [OF demo_zero_fee]
    demo_small demo_zero_fee
  by simp

section \<open>Failures\<close>

text \<open>
  C7, as stated: every validation failure is an error that names the offending
  parameter. The reserve checks do not: the quote function reports a non-positive
  \<open>reserveIn\<close> and a non-positive \<open>reserveOut\<close> with the same message, which contains
  neither name, and the simulator returns the same error whether \<open>reserveA\<close> or
  \<open>reserveB\<close> is the one at fault.
\<close>

theorem reserve_error_counterexample:
  "getAmountOut 100 0 10000 (3/1000) = Inl (RuntimeError ''reserves must be > 0'') \<and>
   getAmountOut 100 10000 0 (3/1000) = Inl (RuntimeError ''reserves must be > 0'') \<and>
   \<not> names_parameter ''reserveIn'' (RuntimeError ''reserves must be > 0'') \<and>
   \<not> names_parameter ''reserveOut'' (RuntimeError ''reserves must be > 0'') \<and>
   simulateSwap 0 10000 (3/1000) ''A2B'' 100 = simulateSwap 10000 0 (3/1000) ''A2B'' 100"
  by (simp add: getAmountOut_def simulateSwap_def require_def then_do_def names_parameter_def
      sublist_Cons_right)

text \<open>
  C7, amended: a call fails exactly when some validated rule is violated, and the error
  is the message of the first violated rule in the order of the checks. For the quote
  function: \<open>amountIn\<close>, then the two reserves jointly, then \<open>fee\<close>. For the simulator:
  the two reserves jointly, then the direction, then \<open>amountIn\<close>, then \<open>fee\<close>. The
  messages for \<open>amountIn\<close>, \<open>fee\<close> and the direction name that one parameter; the
  reserve messages name the reserves together.
\<close>

theorem validation_errors:
  "(getAmountOut amountIn reserveIn reserveOut fee = Inl e \<longleftrightarrow>
      \<not> (amountIn > 0 \<and> reserveIn > 0 \<and> reserveOut > 0 \<and> 0 \<le> fee \<and> fee < 1) \<and>
      e = (if \<not> amountIn > 0 then RuntimeError ''amountIn must be > 0''
           else if \<not> (reserveIn > 0 \<and> reserveOut > 0) then RuntimeError ''reserves must be > 0''
           else RuntimeError ''fee must be in [0, 1)'')) \<and>
   (simulateSwap reserveA reserveB fee d amountIn = Inl e \<longleftrightarrow>
      \<not> (reserveA > 0 \<and> reserveB > 0 \<and> (map toupper d = ''A2B'' \<or> map toupper d = ''B2A'') \<and>
         amountIn > 0 \<and> 0 \<le> fee \<and> fee < 1) \<and>
      e = (if \<not> (reserveA > 0 \<and> reserveB > 0)
             then RuntimeError ''reserveA and reserveB must be > 0''
           else if \<not> (map toupper d = ''A2B'' \<or> map toupper d = ''B2A'')
             then RuntimeError ''direction must be A2B or B2A''
           else if \<not> amountIn > 0 then RuntimeError ''amountIn must be > 0''
           else RuntimeError ''fee must be in [0, 1)''))"
proof (intro conjI)
  show "getAmountOut amountIn reserveIn reserveOut fee = Inl e \<longleftrightarrow>
      \<not> (amountIn > 0 \<and> reserveIn > 0 \<and> reserveOut > 0 \<and> 0 \<le> fee \<and> fee < 1) \<and>
      e = (if \<not> amountIn > 0 then RuntimeError ''amountIn must be > 0''
           else if \<not> (reserveIn > 0 \<and> reserveOut > 0) then RuntimeError ''reserves must be > 0''
           else RuntimeError ''fee must be in [0, 1)'')"
    by (auto simp add: getAmountOut_def require_def then_do_def Let_def)
next
  consider (a) "map toupper d = ''A2B''" | (b) "map toupper d = ''B2A''"
    | (c) "map toupper d \<noteq> ''A2B''" "map toupper d \<noteq> ''B2A''"
    by blast
  then show "simulateSwap reserveA reserveB fee d amountIn = Inl e \<longleftrightarrow>
      \<not> (reserveA > 0 \<and> reserveB > 0 \<and> (map toupper d = ''A2B'' \<or> map toupper d = ''B2A'') \<and>
         amountIn > 0 \<and> 0 \<le> fee \<and> fee < 1) \<and>
      e = (if \<not> (reserveA > 0 \<and> reserveB > 0)
             then RuntimeError ''reserveA and reserveB must be > 0''
           else if \<not> (map toupper d = ''A2B'' \<or> map toupper d = ''B2A'')
             then RuntimeError ''direction must be A2B or B2A''
           else if \<not> amountIn > 0 then RuntimeError ''amountIn must be > 0''
           else RuntimeError ''fee must be in [0, 1)'')"
  proof cases
    case a
    then show ?thesis by (auto simp add: simulateSwap_A2B Let_def)
  next
    case b
    then show ?thesis by (auto simp add: simulateSwap_B2A Let_def)
  next
    case c
    then show ?thesis by (auto simp add: simulateSwap_bad_direction)
  qed
qed

theorem validation_errors_witness:
  "simulateSwap 0 10000 (3/1000) ''A2B'' 100 =
     Inl (RuntimeError ''reserveA and reserveB must be > 0'') \<and>
   names_parameter ''reserveA'' (RuntimeError ''reserveA and reserveB must be > 0'') \<and>
   simulateSwap 10000 10000 (3/1000) ''XYZ'' 100 =
     Inl (RuntimeError ''direction must be A2B or B2A'') \<and>
   simulateSwap 10000 10000 (3/1000) ''A2B'' 0 = Inl (RuntimeError ''amountIn must be > 0'') \<and>
   simulateSwap 10000 10000 1 ''A2B'' 100 = Inl (RuntimeError ''fee must be in [0, 1)'') \<and>
   getAmountOut 100 10000 10000 (-1) = Inl (RuntimeError ''fee must be in [0, 1)'')"
proof -
  have x: "map toupper ''XYZ'' \<noteq> ''A2B''" "map toupper ''XYZ'' \<noteq> ''B2A''"
    by code_simp+
  have d: "map toupper ''A2B'' = ''A2B''" by (rule toupper_A2B)
  have "simulateSwap 0 10000 (3/1000) ''A2B'' 100 =
     Inl (RuntimeError ''reserveA and reserveB must be > 0'')"
    using validation_errors [where reserveA = 0 and reserveB = 10000 and fee = "3/1000"
        and d = "''A2B''" and amountIn = 100
        and e = "RuntimeError ''reserveA and reserveB must be > 0''"]
    by simp
  moreover have "names_parameter ''reserveA'' (RuntimeError ''reserveA and reserveB must be > 0'')"
    by (simp add: names_parameter_def sublist_Cons_right)
  moreover have "simulateSwap 10000 10000 (3/1000) ''XYZ'' 100 =
     Inl (RuntimeError ''direction must be A2B or B2A'')"
    using validation_errors [where reserveA = 10000 and reserveB = 10000 and fee = "3/1000"
        and d = "''XYZ''" and amountIn = 100
        and e = "RuntimeError ''direction must be A2B or B2A''"] x
    by simp
  moreover have "simulateSwap 10000 10000 (3/1000) ''A2B'' 0 =
     Inl (RuntimeError ''amountIn must be > 0'')"
    using validation_errors [where reserveA = 10000 and reserveB = 10000 and fee = "3/1000"
        and d = "''A2B''" and amountIn = 0
        and e = "RuntimeError ''amountIn must be > 0''"] d
    by simp
  moreover have "simulateSwap 10000 10000 1 ''A2B'' 100 =
     Inl (RuntimeError ''fee must be in [0, 1)'')"
    using validation_errors [where reserveA = 10000 and reserveB = 10000 and fee = 1
        and d = "''A2B''" and amountIn = 100
        and e = "RuntimeError ''fee must be in [0, 1)''"] d
    by simp
  moreover have "getAmountOut 100 10000 10000 (-1) = Inl (RuntimeError ''fee must be in [0, 1)'')"
    using validation_errors [where amountIn = 100 and reserveIn = 10000 and reserveOut = 10000
        and fee = "-1" and e = "RuntimeError ''fee must be in [0, 1)''"]
    by simp
  ultimately show ?thesis by (simp only: simp_thms)
qed

text \<open>
  C8, as stated: under the validated preconditions the pool-drained failure is
  unreachable. In the binary64 reading it is reached: with reserves \<open>10000\<close> and \<open>10000\<close>,
  fee \<open>0\<close>, direction A2B and \<open>amountIn = 10^21\<close> every check passes, the quote is
  \<open>10000\<close>, the guard \<open>out < reserveB\<close> is false and the call fails with the pool-drained
  error.
\<close>

theorem pool_drained_counterexample:
  "is_double (Finite False 10000) \<and> is_double (Finite False 0) \<and>
   is_double (Finite False 1000000000000000000000) \<and>
   fgt (Finite False 10000) d0 \<and> fgt (Finite False 1000000000000000000000) d0 \<and>
   fge (Finite False 0) d0 \<and> flt (Finite False 0) d1 \<and>
   simulateSwap64 (Finite False 10000) (Finite False 10000) (Finite False 0) ''A2B''
     (Finite False 1000000000000000000000) =
   Inl (RuntimeError ''amountOut would drain the pool (invalid trade)'')"
  by (intro conjI inputs_are_doubles sim64_1e21) (simp_all add: signed_def fge_def fgt_def)

text \<open>
  C8, amended: after the quote the simulator checks \<open>amountOut < outReserve\<close>, and the
  call fails with the pool-drained error exactly when the reserves and the direction
  pass their checks, the quote function returns, and its result is not below the
  out-reserve of the direction taken (first conjunct, binary64 reading, where this
  happens for valid inputs); in exact real arithmetic the simulator never fails with
  that error, and valid inputs with a recognised direction succeed (second and third
  conjunct).
\<close>

theorem pool_drained_iff:
  "(simulateSwap64 reserveA reserveB fee d amountIn =
       Inl (RuntimeError ''amountOut would drain the pool (invalid trade)'') \<longleftrightarrow>
     fgt reserveA d0 \<and> fgt reserveB d0 \<and>
     ((map toupper d = ''A2B'' \<and>
         (\<exists>out. getAmountOut64 amountIn reserveA reserveB fee = Inr out \<and> \<not> flt out reserveB))
      \<or> (map toupper d = ''B2A'' \<and>
         (\<exists>out. getAmountOut64 amountIn reserveB reserveA fee = Inr out \<and> \<not> flt out reserveA)))) \<and>
   simulateSwap rA rB rfee d' rIn \<noteq>
     Inl (RuntimeError ''amountOut would drain the pool (invalid trade)'') \<and>
   (rA > 0 \<and> rB > 0 \<and> rIn > 0 \<and> 0 \<le> rfee \<and> rfee < 1 \<and>
      (map toupper d' = ''A2B'' \<or> map toupper d' = ''B2A'') \<longrightarrow>
        (\<exists>r. simulateSwap rA rB rfee d' rIn = Inr r))"
proof (intro conjI impI)
  show "simulateSwap64 reserveA reserveB fee d amountIn =
       Inl (RuntimeError ''amountOut would drain the pool (invalid trade)'') \<longleftrightarrow>
     fgt reserveA d0 \<and> fgt reserveB d0 \<and>
     ((map toupper d = ''A2B'' \<and>
         (\<exists>out. getAmountOut64 amountIn reserveA reserveB fee = Inr out \<and> \<not> flt out reserveB))
      \<or> (map toupper d = ''B2A'' \<and>
         (\<exists>out. getAmountOut64 amountIn reserveB reserveA fee = Inr out \<and> \<not> flt out reserveA)))"
    by (rule simulateSwap64_drained_iff)
next
  show "simulateSwap rA rB rfee d' rIn \<noteq>
     Inl (RuntimeError ''amountOut would drain the pool (invalid trade)'')"
    by (rule simulateSwap_never_drained)
next
  assume "rA > 0 \<and> rB > 0 \<and> rIn > 0 \<and> 0 \<le> rfee \<and> rfee < 1 \<and>
      (map toupper d' = ''A2B'' \<or> map toupper d' = ''B2A'')"
  then show "\<exists>r. simulateSwap rA rB rfee d' rIn = Inr r"
    by (intro simulateSwap_valid_succeeds) simp_all
qed

theorem pool_drained_iff_witness:
  "fgt (Finite False 10000) d0 \<and> map toupper ''A2B'' = ''A2B'' \<and>
   getAmountOut64 (Finite False 1000000000000000000000) (Finite False 10000)
     (Finite False 10000) (Finite False 0) = Inr (Finite False 10000) \<and>
   \<not> flt (Finite False 10000) (Finite False 10000) \<and>
   simulateSwap64 (Finite False 10000) (Finite False 10000) (Finite False 0) ''A2B''
     (Finite False 1000000000000000000000) =
   Inl (RuntimeError ''amountOut would drain the pool (invalid trade)'') \<and>
   (10000::real) > 0 \<and> (100::real) > 0 \<and> (0::real) \<le> 3/1000 \<and> (3/1000::real) < 1 \<and>
   (\<exists>r. simulateSwap 10000 10000 (3/1000) ''A2B'' 100 = Inr r)"
proof -
  note t = pool_drained_iff [where reserveA = "Finite False 10000"
      and reserveB = "Finite False 10000" and fee = "Finite False 0" and d = "''A2B''"
      and amountIn = "Finite False 1000000000000000000000"
      and rA = 10000 and rB = 10000 and rfee = "3/1000" and d' = "''A2B''" and rIn = 100]
  have g: "fgt (Finite False 10000) d0" by (simp add: fgt_def signed_def)
  have n: "\<not> flt (Finite False 10000) (Finite False 10000)" by (simp add: signed_def)
  have v: "(10000::real) > 0 \<and> (100::real) > 0 \<and> (0::real) \<le> 3/1000 \<and> (3/1000::real) < 1"
    by simp
  have "simulateSwap64 (Finite False 10000) (Finite False 10000) (Finite False 0) ''A2B''
     (Finite False 1000000000000000000000) =
   Inl (RuntimeError ''amountOut would drain the pool (invalid trade)'')"
    using t g n quote64_1e21 toupper_A2B by blast
  moreover have "\<exists>r. simulateSwap 10000 10000 (3/1000) ''A2B'' 100 = Inr r"
    using t v toupper_A2B by blast
  ultimately show ?thesis using g n v quote64_1e21 toupper_A2B by (simp only: simp_thms)
qed

text \<open>
  C9. The direction is normalised to upper case before use: a call with direction \<open>d\<close>
  returns what the call with the upper-case form of \<open>d\<close> returns (so \<open>a2b\<close> and \<open>b2a\<close>
  behave as \<open>A2B\<close> and \<open>B2A\<close>), and a direction whose upper-case form is neither \<open>A2B\<close>
  nor \<open>B2A\<close> fails with the direction error; the reserve check runs before it, so with
  a non-positive reserve the failure is the reserve error.
\<close>

theorem direction_case_insensitive:
  "simulateSwap reserveA reserveB fee d amountIn =
     simulateSwap reserveA reserveB fee (map toupper d) amountIn \<and>
   (map toupper d \<noteq> ''A2B'' \<and> map toupper d \<noteq> ''B2A'' \<longrightarrow>
      simulateSwap reserveA reserveB fee d amountIn =
        (if reserveA > 0 \<and> reserveB > 0 then Inl (RuntimeError ''direction must be A2B or B2A'')
         else Inl (RuntimeError ''reserveA and reserveB must be > 0'')))"
proof -
  have "map toupper (map toupper d) = map toupper d"
    by (simp add: toupper_idem)
  then have "simulateSwap reserveA reserveB fee d amountIn =
     simulateSwap reserveA reserveB fee (map toupper d) amountIn"
    by (simp only: simulateSwap_def)
  then show ?thesis
    using simulateSwap_bad_direction [of d reserveA reserveB fee amountIn] by blast
qed

theorem direction_case_insensitive_witness:
  "map toupper ''a2b'' = ''A2B'' \<and>
   simulateSwap 10000 10000 (3/1000) ''a2b'' 100 = simulateSwap 10000 10000 (3/1000) ''A2B'' 100 \<and>
   map toupper ''b2a'' = ''B2A'' \<and>
   simulateSwap 10000 10000 (3/1000) ''b2a'' 100 = simulateSwap 10000 10000 (3/1000) ''B2A'' 100 \<and>
   map toupper ''XYZ'' \<noteq> ''A2B'' \<and> map toupper ''XYZ'' \<noteq> ''B2A'' \<and>
   simulateSwap 10000 10000 (3/1000) ''XYZ'' 100 =
     Inl (RuntimeError ''direction must be A2B or B2A'')"
proof -
  have u: "map toupper ''a2b'' = ''A2B''" "map toupper ''b2a'' = ''B2A''"
    by code_simp+
  have x: "map toupper ''XYZ'' \<noteq> ''A2B''" "map toupper ''XYZ'' \<noteq> ''B2A''"
    by code_simp+
  have "simulateSwap 10000 10000 (3/1000) ''a2b'' 100 = simulateSwap 10000 10000 (3/1000) ''A2B'' 100"
    using direction_case_insensitive [of 10000 10000 "3/1000" "''a2b''" 100]
    by (simp only: u)
  moreover have "simulateSwap 10000 10000 (3/1000) ''b2a'' 100 = simulateSwap 10000 10000 (3/1000) ''B2A'' 100"
    using direction_case_insensitive [of 10000 10000 "3/1000" "''b2a''" 100]
    by (simp only: u)
  moreover have "simulateSwap 10000 10000 (3/1000) ''XYZ'' 100 =
     (if (10000::real) > 0 \<and> (10000::real) > 0
      then Inl (RuntimeError ''direction must be A2B or B2A'')
      else Inl (RuntimeError ''reserveA and reserveB must be > 0''))"
    using direction_case_insensitive [of 10000 10000 "3/1000" "''XYZ''" 100] x
    by blast
  then have "simulateSwap 10000 10000 (3/1000) ''XYZ'' 100 =
     Inl (RuntimeError ''direction must be A2B or B2A'')"
    by simp
  ultimately show ?thesis using u x by (simp only: simp_thms)
qed

end
